theory Spec2Isabelle
  imports Main
begin

section \<open>JavaScript values and errors\<close>

text \<open>
  The values that cross the network are JSON values; property access on them can also
  yield \<open>undefined\<close>. Numbers are modelled as integers (HTTP statuses, ids, counts).
\<close>

datatype jsval =
    JUndefined
  | JNull
  | JBool bool
  | JNum int
  | JStr string
  | JArr "jsval list"
  | JObj "(string \<times> jsval) list"

text \<open>A field of the page state that holds \<open>null\<close>, \<open>undefined\<close> or a typed value.\<close>

datatype 'a nullable = Null | Undefined | Val 'a

text \<open>The exceptions the client code can see, each with its \<open>message\<close>.\<close>

datatype js_error = Error string | TypeError string | SyntaxError string

fun error_message :: "js_error \<Rightarrow> string" where
  "error_message (Error m) = m"
| "error_message (TypeError m) = m"
| "error_message (SyntaxError m) = m"

text \<open>JavaScript truthiness: what \<open>!x\<close>, \<open>x && y\<close> and \<open>x || y\<close> test.\<close>

fun truthy :: "jsval \<Rightarrow> bool" where
  "truthy JUndefined = False"
| "truthy JNull = False"
| "truthy (JBool b) = b"
| "truthy (JNum n) = (n \<noteq> 0)"
| "truthy (JStr s) = (s \<noteq> [])"
| "truthy (JArr xs) = True"
| "truthy (JObj kvs) = True"

fun truthy_str :: "string nullable \<Rightarrow> bool" where
  "truthy_str Null = False"
| "truthy_str Undefined = False"
| "truthy_str (Val s) = (s \<noteq> [])"

text \<open>Decimal rendering of a number inside a template literal.\<close>

definition digit_char :: "nat \<Rightarrow> char" where
  "digit_char d = ''0123456789'' ! d"

function string_of_nat :: "nat \<Rightarrow> string" where
  "string_of_nat n =
     (if n < 10 then [digit_char n]
      else string_of_nat (n div 10) @ [digit_char (n mod 10)])"
  by pat_completeness auto
termination
  by (relation "measure (\<lambda>n. n)") auto

declare string_of_nat.simps [simp del]

definition string_of_int :: "int \<Rightarrow> string" where
  "string_of_int i = (if i < 0 then ''-'' @ string_of_nat (nat (- i)) else string_of_nat (nat i))"

fun join_with :: "string \<Rightarrow> string list \<Rightarrow> string" where
  "join_with sep [] = []"
| "join_with sep [x] = x"
| "join_with sep (x # y # ys) = x @ sep @ join_with sep (y # ys)"

text \<open>
  \<open>String(v)\<close>, the conversion \<open>new Error(v)\<close> applies to its argument. Inside an
  array, \<open>null\<close> and \<open>undefined\<close> render as the empty string. The function is
  exact on strings, booleans, \<open>null\<close>, \<open>undefined\<close> and integers below \<open>10^21\<close> in
  magnitude that a double holds exactly; JavaScript prints larger numbers with an
  exponent, and throws a \<open>TypeError\<close> for an object that has a key \<open>toString\<close> of its
  own. The theorems below apply it to strings only.
\<close>

fun toString :: "jsval \<Rightarrow> string" where
  "toString JUndefined = ''undefined''"
| "toString JNull = ''null''"
| "toString (JBool b) = (if b then ''true'' else ''false'')"
| "toString (JNum n) = string_of_int n"
| "toString (JStr s) = s"
| "toString (JArr xs) =
     join_with '','' (map (\<lambda>x. if x = JNull \<or> x = JUndefined then [] else toString x) xs)"
| "toString (JObj kvs) = ''[object Object]''"

text \<open>
  Property read \<open>v.k\<close>: a \<open>TypeError\<close> on \<open>null\<close> and \<open>undefined\<close>, the stored value
  on an object that has the key, \<open>undefined\<close> otherwise. (The built-in properties of
  strings and arrays, such as \<open>length\<close>, are not needed here.)
\<close>

fun get_prop :: "jsval \<Rightarrow> string \<Rightarrow> js_error + jsval" where
  "get_prop JNull k =
     Inl (TypeError (''Cannot read properties of null (reading '' @ [CHR 0x27] @ k
                       @ [CHR 0x27] @ '')''))"
| "get_prop JUndefined k =
     Inl (TypeError (''Cannot read properties of undefined (reading '' @ [CHR 0x27] @ k
                       @ [CHR 0x27] @ '')''))"
| "get_prop (JObj kvs) k = Inr (case map_of kvs k of None \<Rightarrow> JUndefined | Some v \<Rightarrow> v)"
| "get_prop v k = Inr JUndefined"

section \<open>API client\<close>

text \<open>
  What \<open>fetch\<close> and then \<open>response.json()\<close> deliver for one request: the network
  call itself rejects, or a response arrives with a status and a body that either
  parses as JSON or makes \<open>response.json()\<close> reject.
\<close>

datatype fetch_outcome =
    FetchRejected js_error
  | FetchResponse nat "js_error + jsval"

record request_options =
  http_method :: string
  headers :: "(string \<times> string) list"
  credentials :: string
  data :: "jsval option"
  body :: "jsval option"

text \<open>The caller's \<open>options\<close> object: every key is optional.\<close>

record caller_options =
  opt_method :: "string option"
  opt_headers :: "(string \<times> string) list option"
  opt_credentials :: "string option"
  opt_data :: "jsval option"

definition response_ok :: "nat \<Rightarrow> bool" where
  "response_ok status = (200 \<le> status \<and> status \<le> 299)"

text \<open>
  \<open>{ ...defaultOptions, ...options }\<close>, then \<open>body = JSON.stringify(options.data)\<close> when
  \<open>options.data\<close> is truthy. The body is kept as the value that is serialised. A request
  without a method is a GET.
\<close>

definition build_request_options :: "caller_options \<Rightarrow> request_options" where
  "build_request_options options =
     \<lparr> http_method = (case opt_method options of None \<Rightarrow> ''GET'' | Some m \<Rightarrow> m),
       headers = (case opt_headers options of
                    None \<Rightarrow> [(''Content-Type'', ''application/json'')] | Some h \<Rightarrow> h),
       credentials = (case opt_credentials options of None \<Rightarrow> ''include'' | Some c \<Rightarrow> c),
       data = opt_data options,
       body = (case opt_data options of
                 None \<Rightarrow> None
               | Some d \<Rightarrow> if truthy d then Some d else None) \<rparr>"

text \<open>
  \<open>API.request(endpoint, options)\<close>. The network is a function from the URL and the
  request options to what \<open>fetch\<close> delivers. The \<open>catch\<close> block logs and rethrows, so
  every rejection is the function's own.
\<close>

definition request ::
  "string \<Rightarrow> (string \<Rightarrow> request_options \<Rightarrow> fetch_outcome) \<Rightarrow> string \<Rightarrow> caller_options
     \<Rightarrow> js_error + jsval" where
  "request API_BASE_URL net endpoint options =
     (let url = API_BASE_URL @ endpoint;
          requestOptions = build_request_options options
      in case net url requestOptions of
           FetchRejected e \<Rightarrow> Inl e
         | FetchResponse status parsed \<Rightarrow>
             (case parsed of
                Inl e \<Rightarrow> Inl e
              | Inr d \<Rightarrow>
                  if \<not> response_ok status then
                    (case get_prop d ''message'' of
                       Inl e \<Rightarrow> Inl e
                     | Inr m \<Rightarrow>
                         Inl (Error (if truthy m then toString m
                                     else ''HTTP error! status: '' @ string_of_nat status)))
                  else Inr d))"

section \<open>Lawyer network: connection eligibility\<close>

record user =
  user_id :: int
  user_name :: string
  user_type :: string

record lawyer =
  lawyer_id :: int
  lawyer_name :: string
  qualifications :: "string nullable"
  connection_status :: "string nullable"

text \<open>
  \<open>canConnect(lawyer)\<close> returns the value of
  \<open>!lawyer.connection_status && window.currentUser && window.currentUser.id !== lawyer.id\<close>:
  \<open>false\<close> when a status is set, else \<open>window.currentUser\<close> itself when that is
  \<open>null\<close> or \<open>undefined\<close>, else the comparison of the ids.
\<close>

definition canConnect :: "user nullable \<Rightarrow> lawyer \<Rightarrow> jsval" where
  "canConnect currentUser l =
     (if truthy_str (connection_status l) then JBool False
      else case currentUser of
             Null \<Rightarrow> JNull
           | Undefined \<Rightarrow> JUndefined
           | Val u \<Rightarrow> JBool (user_id u \<noteq> lawyer_id l))"

text \<open>
  The eligibility rule in the specification's words: no existing connection status, and the
  current user's id is not the lawyer's id. A viewer who is not logged in has no id.
\<close>

definition current_user_id :: "user nullable \<Rightarrow> int option" where
  "current_user_id currentUser = (case currentUser of Val u \<Rightarrow> Some (user_id u) | _ \<Rightarrow> None)"

definition canConnect_spec :: "user nullable \<Rightarrow> lawyer \<Rightarrow> bool" where
  "canConnect_spec currentUser l =
     (\<not> truthy_str (connection_status l) \<and> current_user_id currentUser \<noteq> Some (lawyer_id l))"

section \<open>Strings\<close>

text \<open>
  \<open>String.prototype.toLowerCase\<close> on the ASCII letters; every other character is
  left as it is, also the cased letters outside ASCII that JavaScript lowers. \<open>includes_str\<close> is the substring test of \<open>String.prototype.includes\<close>.
\<close>

definition lower_char :: "char \<Rightarrow> char" where
  "lower_char c =
     (case map_of (zip ''ABCDEFGHIJKLMNOPQRSTUVWXYZ'' ''abcdefghijklmnopqrstuvwxyz'') c of
        None \<Rightarrow> c
      | Some d \<Rightarrow> d)"

definition toLowerCase :: "string \<Rightarrow> string" where
  "toLowerCase s = map lower_char s"

fun starts_with :: "string \<Rightarrow> string \<Rightarrow> bool" where
  "starts_with s [] = True"
| "starts_with [] (t # ts) = False"
| "starts_with (x # xs) (t # ts) = (x = t \<and> starts_with xs ts)"

fun includes_str :: "string \<Rightarrow> string \<Rightarrow> bool" where
  "includes_str [] t = (t = [])"
| "includes_str (x # xs) t = (starts_with (x # xs) t \<or> includes_str xs t)"

text \<open>
  \<open>name.replace(/\.[^/.]+$/, "")\<close>: the match can only start at the last dot, and needs
  at least one character after it, none of them a slash.
\<close>

definition strip_extension :: "string \<Rightarrow> string" where
  "strip_extension name =
     (let ext = takeWhile (\<lambda>c. c \<noteq> CHR ''.'') (rev name)
      in if length ext < length name \<and> ext \<noteq> [] \<and> CHR ''/'' \<notin> set ext
         then rev (drop (Suc (length ext)) (rev name))
         else name)"

definition dquote :: string where
  "dquote = [CHR 0x22]"

section \<open>Document manager\<close>

record js_file =
  file_name :: string
  file_size :: nat
  file_type :: string

record document =
  doc_id :: int
  title :: string
  summary :: "string nullable"
  analysis_status :: "string nullable"

text \<open>The envelope of every response body: \<open>{success, message?, ...payload}\<close>.\<close>

record 'p api_response =
  success :: bool
  message :: "string nullable"
  payload :: 'p

text \<open>The multipart form \<open>uploadFile\<close> builds.\<close>

record form_data =
  fd_file :: js_file
  fd_title :: string
  fd_analyze :: string

datatype doc_request =
    UploadDocument form_data
  | GetDocuments

text \<open>What the \<open>#documentsGrid\<close> container shows.\<close>

datatype grid = GridInitial | GridLoading | GridNoDocuments | GridCards "document list"

text \<open>
  The manager's fields, the parts of the page it reads and writes, and the network:
  every request issued so far, and the upload requests sent and not yet settled.
  \<open>alerts\<close> holds the calls of \<open>Utils.showAlert\<close>, newest first. A page element the
  code reads with \<open>?.value\<close> is \<open>None\<close> when the page has no such element.
\<close>

record document_manager =
  currentDocuments :: "document list"
  uploadInProgress :: bool
  maxFileSize :: nat
  allowedTypes :: "string list"
  alerts :: "(string \<times> string) list"
  uploadProgress_shown :: bool
  documentsGrid :: grid
  typeFilter_value :: "string option"
  documentSearch_value :: "string option"
  documentFile_files :: "js_file list"
  requests_sent :: "doc_request list"
  uploads_in_flight :: "form_data list"

definition showAlert :: "string \<Rightarrow> string \<Rightarrow> document_manager \<Rightarrow> document_manager" where
  "showAlert msg type s = s\<lparr>alerts := (msg, type) # alerts s\<rparr>"

definition showUploadProgress :: "bool \<Rightarrow> document_manager \<Rightarrow> document_manager" where
  "showUploadProgress visible s = s\<lparr>uploadProgress_shown := visible\<rparr>"

definition showDocumentsLoading :: "bool \<Rightarrow> document_manager \<Rightarrow> document_manager" where
  "showDocumentsLoading visible s = (if visible then s\<lparr>documentsGrid := GridLoading\<rparr> else s)"

definition renderDocuments :: "document list \<Rightarrow> document_manager \<Rightarrow> document_manager" where
  "renderDocuments documents s =
     (if length documents = 0 then s\<lparr>documentsGrid := GridNoDocuments\<rparr>
      else s\<lparr>documentsGrid := GridCards documents\<rparr>)"

definition clearUploadForm :: "document_manager \<Rightarrow> document_manager" where
  "clearUploadForm s = s\<lparr>documentFile_files := []\<rparr>"

text \<open>
  \<open>loadDocuments\<close> up to its \<open>await\<close>: the loading panel is shown and the request goes
  out. \<open>loadDocuments_resume\<close> is the rest, run when the request settles.
\<close>

definition loadDocuments_begin :: "document_manager \<Rightarrow> document_manager" where
  "loadDocuments_begin s =
     (let s1 = showDocumentsLoading True s
      in s1\<lparr>requests_sent := requests_sent s1 @ [GetDocuments]\<rparr>)"

definition loadDocuments_catch :: "js_error \<Rightarrow> document_manager \<Rightarrow> document_manager" where
  "loadDocuments_catch e s =
     renderDocuments [] (showAlert (''Failed to load documents: '' @ error_message e) ''error'' s)"

definition loadDocuments_resume ::
  "js_error + (document list) api_response \<Rightarrow> document_manager \<Rightarrow> document_manager" where
  "loadDocuments_resume outcome s =
     showDocumentsLoading False
       (case outcome of
          Inl e \<Rightarrow> loadDocuments_catch e s
        | Inr response \<Rightarrow>
            if success response
            then renderDocuments (payload response) (s\<lparr>currentDocuments := payload response\<rparr>)
            else loadDocuments_catch
                   (Error (if truthy_str (message response)
                           then (case message response of Val m \<Rightarrow> m | _ \<Rightarrow> [])
                           else ''Failed to load documents'')) s)"

text \<open>The constructor, with \<open>init()\<close>: the first \<open>loadDocuments\<close> is started.\<close>

definition DocumentManager_fields :: document_manager where
  "DocumentManager_fields =
     \<lparr> currentDocuments = [],
       uploadInProgress = False,
       maxFileSize = 50 * 1024 * 1024,
       allowedTypes =
         [''application/pdf'', ''application/msword'',
          ''application/vnd.openxmlformats-officedocument.wordprocessingml.document'',
          ''text/plain''],
       alerts = [],
       uploadProgress_shown = False,
       documentsGrid = GridInitial,
       typeFilter_value = Some [],
       documentSearch_value = Some [],
       documentFile_files = [],
       requests_sent = [],
       uploads_in_flight = [] \<rparr>"

definition DocumentManager_new :: document_manager where
  "DocumentManager_new = loadDocuments_begin DocumentManager_fields"

definition validateFile :: "js_file \<Rightarrow> document_manager \<Rightarrow> bool \<times> document_manager" where
  "validateFile f s =
     (if file_size f > maxFileSize s then
        (False, showAlert (''File '' @ dquote @ file_name f @ dquote
                             @ '' is too large. Maximum size is 50MB.'') ''error'' s)
      else if file_type f \<notin> set (allowedTypes s) then
        (False, showAlert (''File '' @ dquote @ file_name f @ dquote
                             @ '' type is not supported. Please upload PDF, DOC, DOCX, or TXT files.'')
                  ''error'' s)
      else (True, s))"

text \<open>
  \<open>uploadFile\<close> up to its \<open>await\<close>: the guard, the flag, the form, and the request
  handed to the network. \<open>API.uploadDocument\<close> sends the request before it returns its
  promise, so the request is in flight when the function suspends. The progress events
  of the request only repaint the progress bar and are left out.
\<close>

definition uploadFile_begin :: "js_file \<Rightarrow> document_manager \<Rightarrow> document_manager" where
  "uploadFile_begin f s =
     (if uploadInProgress s then
        showAlert ''Another upload is in progress. Please wait.'' ''warning'' s
      else
        let s1 = s\<lparr>uploadInProgress := True\<rparr>;
            s2 = showUploadProgress True s1;
            formData = \<lparr> fd_file = f, fd_title = strip_extension (file_name f),
                         fd_analyze = ''true'' \<rparr>
        in s2\<lparr>requests_sent := requests_sent s2 @ [UploadDocument formData],
               uploads_in_flight := uploads_in_flight s2 @ [formData]\<rparr>)"

definition uploadFile_catch :: "js_error \<Rightarrow> document_manager \<Rightarrow> document_manager" where
  "uploadFile_catch e s = showAlert (''Upload failed: '' @ error_message e) ''error'' s"

definition uploadFile_finally :: "document_manager \<Rightarrow> document_manager" where
  "uploadFile_finally s = showUploadProgress False (s\<lparr>uploadInProgress := False\<rparr>)"

text \<open>
  The rest of \<open>uploadFile\<close>, run when its request settles: the promise of
  \<open>API.uploadDocument\<close> resolves with the parsed body or rejects with an error, and the
  settled request leaves the network.
\<close>

definition uploadFile_resume ::
  "js_error + unit api_response \<Rightarrow> document_manager \<Rightarrow> document_manager" where
  "uploadFile_resume outcome s =
     (let s0 = s\<lparr>uploads_in_flight := tl (uploads_in_flight s)\<rparr>
      in uploadFile_finally
           (case outcome of
              Inl e \<Rightarrow> uploadFile_catch e s0
            | Inr response \<Rightarrow>
                if success response then
                  clearUploadForm
                    (loadDocuments_begin
                       (showAlert ''Document uploaded and analyzed successfully!'' ''success'' s0))
                else uploadFile_catch
                       (Error (if truthy_str (message response)
                               then (case message response of Val m \<Rightarrow> m | _ \<Rightarrow> [])
                               else ''Upload failed'')) s0))"

text \<open>
  \<open>processFiles\<close>: each file is validated and, when valid, handed to \<open>uploadFile\<close>,
  which runs up to its \<open>await\<close> before the next file is looked at.
\<close>

definition processFiles :: "js_file list \<Rightarrow> document_manager \<Rightarrow> document_manager" where
  "processFiles files s =
     fold (\<lambda>f s. case validateFile f s of
                    (ok, s1) \<Rightarrow> if ok then uploadFile_begin f s1 else s1) files s"

text \<open>
  \<open>handleFileSelect\<close> runs on the \<open>change\<close> event of the file input, whose \<open>files\<close>
  are then the chosen ones; \<open>handleDrop\<close> takes the files of the drop and leaves the
  input alone.
\<close>

definition handleFileSelect :: "js_file list \<Rightarrow> document_manager \<Rightarrow> document_manager" where
  "handleFileSelect files s =
     (let s1 = s\<lparr>documentFile_files := files\<rparr>
      in if length files > 0 then processFiles files s1 else s1)"

definition handleDrop :: "js_file list \<Rightarrow> document_manager \<Rightarrow> document_manager" where
  "handleDrop files s = (if length files > 0 then processFiles files s else s)"

text \<open>\<open>handleUpload\<close>, the submit handler of the upload form.\<close>

definition handleUpload :: "document_manager \<Rightarrow> document_manager" where
  "handleUpload s =
     (case documentFile_files s of
        [] \<Rightarrow> showAlert ''Please select a file to upload.'' ''warning'' s
      | f # fs \<Rightarrow> uploadFile_begin f s)"

text \<open>
  \<open>filterDocuments(searchTerm)\<close>. The search box's value wins over the argument
  whenever it is not empty; the status filter applies after the search filter.
\<close>

definition matches_search :: "string \<Rightarrow> document \<Rightarrow> bool" where
  "matches_search searchInput doc =
     (includes_str (toLowerCase (title doc)) (toLowerCase searchInput) \<or>
      (case summary doc of
         Val sm \<Rightarrow> sm \<noteq> [] \<and> includes_str (toLowerCase sm) (toLowerCase searchInput)
       | _ \<Rightarrow> False))"

definition filterDocuments :: "string \<Rightarrow> document_manager \<Rightarrow> document_manager" where
  "filterDocuments searchTerm s =
     (let typeFilter = (case typeFilter_value s of
                          None \<Rightarrow> []
                        | Some v \<Rightarrow> if v \<noteq> [] then v else []);
          searchInput = (case documentSearch_value s of
                           None \<Rightarrow> searchTerm
                         | Some v \<Rightarrow> if v \<noteq> [] then v else searchTerm);
          filteredDocs = currentDocuments s;
          filteredDocs1 = (if searchInput \<noteq> []
                           then filter (matches_search searchInput) filteredDocs
                           else filteredDocs);
          filteredDocs2 = (if typeFilter \<noteq> []
                           then filter (\<lambda>doc. analysis_status doc = Val typeFilter) filteredDocs1
                           else filteredDocs1)
      in renderDocuments filteredDocs2 s)"

text \<open>The documents the grid shows.\<close>

fun rendered :: "grid \<Rightarrow> document list" where
  "rendered (GridCards ds) = ds"
| "rendered g = []"

text \<open>
  The page as a state machine: the user's actions and the settling of requests, one
  event at a time, as the single-threaded event loop runs them. An upload can only
  settle while one is in flight, and the typed text reaches \<open>filterDocuments\<close> as the
  value of the search box.
\<close>

datatype dm_event =
    FilesSelected "js_file list"
  | FilesDropped "js_file list"
  | FormSubmitted
  | UploadSettled "js_error + unit api_response"
  | DocumentsSettled "js_error + (document list) api_response"
  | SearchTyped string
  | TypeFilterChanged string

fun dm_step :: "dm_event \<Rightarrow> document_manager \<Rightarrow> document_manager" where
  "dm_step (FilesSelected files) s = handleFileSelect files s"
| "dm_step (FilesDropped files) s = handleDrop files s"
| "dm_step FormSubmitted s = handleUpload s"
| "dm_step (UploadSettled outcome) s =
     (if uploads_in_flight s = [] then s else uploadFile_resume outcome s)"
| "dm_step (DocumentsSettled outcome) s = loadDocuments_resume outcome s"
| "dm_step (SearchTyped v) s = filterDocuments v (s\<lparr>documentSearch_value := Some v\<rparr>)"
| "dm_step (TypeFilterChanged v) s = filterDocuments [] (s\<lparr>typeFilter_value := Some v\<rparr>)"

definition dm_run :: "dm_event list \<Rightarrow> document_manager \<Rightarrow> document_manager" where
  "dm_run evs s = fold dm_step evs s"

section \<open>Chat manager\<close>

record session =
  sess_id :: int
  session_title :: string
  updated_at :: string
  message_count :: "nat option"

record chat_message =
  message_type :: string
  content :: string
  created_at :: string
  sources :: "string list option"

text \<open>
  The requests of the chat page, with the values that fill the endpoint templates:
  \<open>/chatbot/sessions\<close> (GET and POST, the latter with a title),
  \<open>/chatbot/sessions/{id}/messages\<close>, \<open>/chatbot/sessions/{id}/chat\<close> with the message,
  and DELETE on \<open>/chatbot/sessions/{id}\<close>.
\<close>

datatype chat_request =
    GetSessions
  | PostSession string
  | GetMessages int
  | PostChat "int option" string
  | DeleteSessionRequest "int option"

text \<open>What the \<open>#chatSessions\<close> sidebar shows; an item carries its \<open>active\<close> mark.\<close>

datatype sessions_panel =
    SessionsInitial
  | SessionsNone
  | SessionsItems "(session \<times> bool) list"
  | SessionsLoadFailed

text \<open>The children of the \<open>#chatMessages\<close> container.\<close>

datatype chat_item = WelcomeMessage | StartConversation | MessageItem chat_message

record chatbot =
  currentSessionId :: "int option"
  sessions :: "session list"
  isTyping :: bool
  chatSessions :: sessions_panel
  chatMessages :: "chat_item list"
  messageInput :: string
  chatTitle :: string
  chatSubtitle :: string
  chatActions_shown :: bool
  typingIndicator_shown :: bool
  sendButton_disabled :: bool
  loadingOverlay_shown :: bool
  chat_alerts :: "(string \<times> string) list"
  chat_requests :: "chat_request list"

text \<open>\<open>!this.currentSessionId\<close> is true for \<open>null\<close> and for the number 0.\<close>

fun truthy_id :: "int option \<Rightarrow> bool" where
  "truthy_id None = False"
| "truthy_id (Some n) = (n \<noteq> 0)"

text \<open>
  \<open>String.prototype.trim\<close> on the ASCII white space; the Unicode spaces it also strips
  (such as U+00A0 and U+FEFF) are not characters of this model.
\<close>

definition is_space :: "char \<Rightarrow> bool" where
  "is_space c = (c \<in> set [CHR '' '', CHR 0x09, CHR 0x0A, CHR 0x0B, CHR 0x0C, CHR 0x0D])"

definition trim :: "string \<Rightarrow> string" where
  "trim s = rev (dropWhile is_space (rev (dropWhile is_space s)))"

definition chat_showAlert :: "string \<Rightarrow> string \<Rightarrow> chatbot \<Rightarrow> chatbot" where
  "chat_showAlert msg type s = s\<lparr>chat_alerts := (msg, type) # chat_alerts s\<rparr>"

definition issue :: "chat_request \<Rightarrow> chatbot \<Rightarrow> chatbot" where
  "issue r s = s\<lparr>chat_requests := chat_requests s @ [r]\<rparr>"

definition renderSessions :: "chatbot \<Rightarrow> chatbot" where
  "renderSessions s =
     (if length (sessions s) = 0 then s\<lparr>chatSessions := SessionsNone\<rparr>
      else s\<lparr>chatSessions :=
               SessionsItems (map (\<lambda>x. (x, Some (sess_id x) = currentSessionId s)) (sessions s))\<rparr>)"

text \<open>
  \<open>loadSessions\<close>: the request, then the rest of the body once it has settled. A body
  with \<open>success: false\<close> falls through the \<open>if\<close>; a rejection reaches the \<open>catch\<close>,
  which replaces the sidebar by the failure panel.
\<close>

definition loadSessions_begin :: "chatbot \<Rightarrow> chatbot" where
  "loadSessions_begin s = issue GetSessions s"

definition loadSessions_resume ::
  "js_error + (session list) api_response \<Rightarrow> chatbot \<Rightarrow> chatbot" where
  "loadSessions_resume outcome s =
     (case outcome of
        Inl e \<Rightarrow> s\<lparr>chatSessions := SessionsLoadFailed\<rparr>
      | Inr response \<Rightarrow>
          if success response then renderSessions (s\<lparr>sessions := payload response\<rparr>)
          else s)"

definition loadSessions ::
  "js_error + (session list) api_response \<Rightarrow> chatbot \<Rightarrow> chatbot" where
  "loadSessions outcome s = loadSessions_resume outcome (loadSessions_begin s)"

definition renderMessages :: "chat_message list \<Rightarrow> chatbot \<Rightarrow> chatbot" where
  "renderMessages messages s =
     (if length messages = 0 then s\<lparr>chatMessages := [StartConversation]\<rparr>
      else s\<lparr>chatMessages := map MessageItem messages\<rparr>)"

text \<open>
  \<open>loadSession(sessionId)\<close> up to its \<open>await\<close>: the session becomes the current one at
  once. The rest runs when the messages arrive.
\<close>

definition loadSession_begin :: "int \<Rightarrow> chatbot \<Rightarrow> chatbot" where
  "loadSession_begin sessionId s =
     issue (GetMessages sessionId) (renderSessions (s\<lparr>currentSessionId := Some sessionId\<rparr>))"

definition loadSession_resume ::
  "js_error + (session \<times> chat_message list) api_response \<Rightarrow> chatbot \<Rightarrow> chatbot" where
  "loadSession_resume outcome s =
     (case outcome of
        Inl e \<Rightarrow> chat_showAlert ''Failed to load chat session'' ''danger'' s
      | Inr response \<Rightarrow>
          if success response then
            (let s1 = renderMessages (snd (payload response)) s
             in s1\<lparr>chatTitle := session_title (fst (payload response)),
                    chatSubtitle := string_of_nat (length (snd (payload response))) @ '' messages'',
                    chatActions_shown := True\<rparr>)
          else s)"

text \<open>
  \<open>createNewSession\<close>; \<open>now\<close> is the clock reading that goes into the title. On
  success the new session is put first, and \<open>loadSession\<close> is called without \<open>await\<close>:
  it runs up to its own \<open>await\<close>.
\<close>

definition createNewSession_begin :: "string \<Rightarrow> chatbot \<Rightarrow> chatbot" where
  "createNewSession_begin now s =
     issue (PostSession (''Chat Session '' @ now)) (s\<lparr>loadingOverlay_shown := True\<rparr>)"

definition createNewSession_resume ::
  "js_error + session api_response \<Rightarrow> chatbot \<Rightarrow> chatbot" where
  "createNewSession_resume outcome s =
     (let s' = (case outcome of
                  Inl e \<Rightarrow> chat_showAlert ''Failed to create new session'' ''danger'' s
                | Inr response \<Rightarrow>
                    if success response then
                      (let s1 = s\<lparr>sessions := payload response # sessions s\<rparr>;
                           s2 = renderSessions s1;
                           s3 = loadSession_begin (sess_id (payload response)) s2
                       in chat_showAlert ''New chat session created!'' ''success'' s3)
                    else s)
      in s'\<lparr>loadingOverlay_shown := False\<rparr>)"

definition createNewSession ::
  "string \<Rightarrow> js_error + session api_response \<Rightarrow> chatbot \<Rightarrow> chatbot" where
  "createNewSession now outcome s =
     createNewSession_resume outcome (createNewSession_begin now s)"

text \<open>
  \<open>addMessageToUI\<close>: the first welcome block is removed, the message is appended, and
  the subtitle counts the elements of class \<open>message\<close>, which are the rendered messages
  (the content of a message is taken not to bring elements of that class of its own).
\<close>

definition addMessageToUI :: "chat_message \<Rightarrow> chatbot \<Rightarrow> chatbot" where
  "addMessageToUI m s =
     (let items = remove1 WelcomeMessage (chatMessages s) @ [MessageItem m];
          messageCount = length (filter (\<lambda>i. case i of MessageItem x \<Rightarrow> True | _ \<Rightarrow> False) items)
      in s\<lparr>chatMessages := items,
            chatSubtitle := string_of_nat messageCount @ '' messages''\<rparr>)"

definition showTypingIndicator :: "chatbot \<Rightarrow> chatbot" where
  "showTypingIndicator s =
     s\<lparr>isTyping := True, typingIndicator_shown := True, sendButton_disabled := True\<rparr>"

definition hideTypingIndicator :: "chatbot \<Rightarrow> chatbot" where
  "hideTypingIndicator s =
     s\<lparr>isTyping := False, typingIndicator_shown := False, sendButton_disabled := False\<rparr>"

definition apology_error :: string where
  "apology_error =
     ''I apologize, but I encountered an error processing your request. Please try again.''"

definition apology_connection :: string where
  "apology_connection =
     ''I apologize, but I'' @ [CHR 0x27]
       @ ''m having trouble connecting right now. Please try again in a moment.''"

definition assistant_message :: "string \<Rightarrow> string \<Rightarrow> chat_message" where
  "assistant_message now text =
     \<lparr> message_type = ''assistant'', content = text, created_at = now, sources = None \<rparr>"

text \<open>
  \<open>sendMessage\<close> from clearing the input to the \<open>await\<close> of the chat request, which is
  addressed to whatever \<open>currentSessionId\<close> holds at that moment.
\<close>

definition sendMessage_send :: "string \<Rightarrow> string \<Rightarrow> chatbot \<Rightarrow> chatbot" where
  "sendMessage_send now msg s =
     (let s1 = s\<lparr>messageInput := []\<rparr>;
          s2 = addMessageToUI
                 \<lparr> message_type = ''user'', content = msg, created_at = now, sources = None \<rparr> s1;
          s3 = showTypingIndicator s2
      in issue (PostChat (currentSessionId s3) msg) s3)"

text \<open>The rest of \<open>sendMessage\<close>, once the chat request has settled.\<close>

definition sendMessage_reply ::
  "string \<Rightarrow> js_error + chat_message api_response
     \<Rightarrow> js_error + (session list) api_response \<Rightarrow> chatbot \<Rightarrow> chatbot" where
  "sendMessage_reply now chat_outcome sessions_outcome s =
     (case chat_outcome of
        Inl e \<Rightarrow>
          addMessageToUI (assistant_message now apology_connection) (hideTypingIndicator s)
      | Inr response \<Rightarrow>
          (let s1 = hideTypingIndicator s
           in if success response then
                loadSessions sessions_outcome (addMessageToUI (payload response) s1)
              else addMessageToUI (assistant_message now apology_error) s1))"

text \<open>
  \<open>sendMessage\<close>, run to its end against the outcomes of the requests it awaits: the
  creation of a session (when it asks for one), the chat request, and the reload of the
  session list (after a successful reply).
\<close>

definition sendMessage ::
  "string \<Rightarrow> js_error + session api_response \<Rightarrow> js_error + chat_message api_response
     \<Rightarrow> js_error + (session list) api_response \<Rightarrow> chatbot \<Rightarrow> chatbot" where
  "sendMessage now create_outcome chat_outcome sessions_outcome s =
     (let msg = trim (messageInput s)
      in if msg = [] \<or> isTyping s then s
         else if \<not> truthy_id (currentSessionId s) then
           (let s1 = createNewSession now create_outcome s
            in if \<not> truthy_id (currentSessionId s1) then s1
               else sendMessage_reply now chat_outcome sessions_outcome
                      (sendMessage_send now msg s1))
         else sendMessage_reply now chat_outcome sessions_outcome (sendMessage_send now msg s))"

text \<open>
  \<open>deleteSession(sessionId)\<close>: the answer to the \<open>confirm\<close> dialog, the request, and
  the rest of the body when the request has settled. The body of the response is not
  looked at.
\<close>

definition deleteSession_begin :: "int option \<Rightarrow> chatbot \<Rightarrow> chatbot" where
  "deleteSession_begin sessionId s = issue (DeleteSessionRequest sessionId) s"

definition deleteSession_resume ::
  "int option \<Rightarrow> js_error + unit api_response \<Rightarrow> chatbot \<Rightarrow> chatbot" where
  "deleteSession_resume sessionId outcome s =
     (case outcome of
        Inl e \<Rightarrow> chat_showAlert ''Failed to delete session'' ''danger'' s
      | Inr response \<Rightarrow>
          (let s1 = s\<lparr>sessions := filter (\<lambda>x. Some (sess_id x) \<noteq> sessionId) (sessions s)\<rparr>;
               s2 = renderSessions s1;
               s3 = (if currentSessionId s2 = sessionId then
                       s2\<lparr>currentSessionId := None,
                          chatMessages := [WelcomeMessage],
                          chatTitle := ''AI Legal Assistant'',
                          chatSubtitle := ''Ask me anything about Indian law'',
                          chatActions_shown := False\<rparr>
                     else s2)
           in chat_showAlert ''Chat session deleted'' ''success'' s3))"

definition deleteSession ::
  "bool \<Rightarrow> int option \<Rightarrow> js_error + unit api_response \<Rightarrow> chatbot \<Rightarrow> chatbot" where
  "deleteSession confirmed sessionId outcome s =
     (if \<not> confirmed then s
      else deleteSession_resume sessionId outcome (deleteSession_begin sessionId s))"

text \<open>The fields the constructor sets, on a page that shows the welcome message.\<close>

definition ChatBot_fields :: chatbot where
  "ChatBot_fields =
     \<lparr> currentSessionId = None,
       sessions = [],
       isTyping = False,
       chatSessions = SessionsInitial,
       chatMessages = [WelcomeMessage],
       messageInput = [],
       chatTitle = ''AI Legal Assistant'',
       chatSubtitle = ''Ask me anything about Indian law'',
       chatActions_shown = False,
       typingIndicator_shown = False,
       sendButton_disabled = False,
       loadingOverlay_shown = False,
       chat_alerts = [],
       chat_requests = [] \<rparr>"

section \<open>Properties stated over the model\<close>

text \<open>
  An upload request is in flight exactly while \<open>uploadInProgress\<close> is set, and there
  is never more than one.
\<close>

definition upload_serialized :: "document_manager \<Rightarrow> bool" where
  "upload_serialized s = (length (uploads_in_flight s) = (if uploadInProgress s then 1 else 0))"

text \<open>
  Containment regardless of letter case, in the specification's words: the lower-cased
  text has the lower-cased term as a contiguous part. A document matches a term when its
  title contains it, or it has a summary that does.
\<close>

definition contains_ci :: "string \<Rightarrow> string \<Rightarrow> bool" where
  "contains_ci text t = (\<exists>pre post. toLowerCase text = pre @ toLowerCase t @ post)"

definition doc_matches :: "string \<Rightarrow> document \<Rightarrow> bool" where
  "doc_matches t d =
     (contains_ci (title d) t \<or> (\<exists>sm. summary d = Val sm \<and> contains_ci sm t))"

text \<open>
  The term \<open>filterDocuments\<close> searches for, and the status it filters by: the values of
  the two page elements, the argument standing in for an empty or missing search box.
\<close>

definition effective_search :: "string \<Rightarrow> document_manager \<Rightarrow> string" where
  "effective_search searchTerm s =
     (case documentSearch_value s of
        None \<Rightarrow> searchTerm
      | Some v \<Rightarrow> if v = [] then searchTerm else v)"

definition selected_type :: "document_manager \<Rightarrow> string" where
  "selected_type s = (case typeFilter_value s of None \<Rightarrow> [] | Some v \<Rightarrow> v)"

subsection \<open>Sample data\<close>

definition oversize_pdf :: js_file where
  "oversize_pdf =
     \<lparr> file_name = ''contract.pdf'', file_size = 60 * 1024 * 1024,
       file_type = ''application/pdf'' \<rparr>"

definition small_pdf :: js_file where
  "small_pdf =
     \<lparr> file_name = ''deed.v2.pdf'', file_size = 2048, file_type = ''application/pdf'' \<rparr>"

definition lease_doc :: document where
  "lease_doc =
     \<lparr> doc_id = 1, title = ''Lease Agreement'', summary = Null,
       analysis_status = Val ''completed'' \<rparr>"

definition notice_doc :: document where
  "notice_doc =
     \<lparr> doc_id = 2, title = ''Tax notice'', summary = Val ''Mentions the LEASE of 2019'',
       analysis_status = Val ''pending'' \<rparr>"

definition will_doc :: document where
  "will_doc =
     \<lparr> doc_id = 3, title = ''Will'', summary = Val [], analysis_status = Val ''completed'' \<rparr>"

text \<open>The manager after its first \<open>loadDocuments\<close> has brought three documents.\<close>

definition loaded_manager :: document_manager where
  "loaded_manager =
     dm_run [DocumentsSettled (Inr \<lparr> success = True, message = Undefined,
                                      payload = [lease_doc, notice_doc, will_doc] \<rparr>)]
       DocumentManager_new"

text \<open>The same page after the status filter has been set to \<open>completed\<close>.\<close>

definition completed_only_manager :: document_manager where
  "completed_only_manager = dm_run [TypeFilterChanged ''completed''] loaded_manager"

text \<open>
  \<open>response.message || fallback\<close>, the message of the \<open>Error\<close> that the document
  manager throws on a body with \<open>success: false\<close>.
\<close>

definition message_or :: "'p api_response \<Rightarrow> string \<Rightarrow> string" where
  "message_or response fallback =
     (case message response of Val m \<Rightarrow> if m = [] then fallback else m | _ \<Rightarrow> fallback)"

subsection \<open>Sample responses\<close>

definition get_options :: caller_options where
  "get_options =
     \<lparr> opt_method = Some ''GET'', opt_headers = None, opt_credentials = None,
       opt_data = None \<rparr>"

text \<open>A server that answers every request with the given status and JSON body.\<close>

definition json_server :: "nat \<Rightarrow> jsval \<Rightarrow> string \<Rightarrow> request_options \<Rightarrow> fetch_outcome" where
  "json_server status d url opts = FetchResponse status (Inr d)"

text \<open>
  A gateway that answers with status 502 and an HTML page, on which \<open>response.json()\<close>
  rejects.
\<close>

definition bad_gateway :: "string \<Rightarrow> request_options \<Rightarrow> fetch_outcome" where
  "bad_gateway url opts =
     FetchResponse 502 (Inl (SyntaxError ''Unexpected token < in JSON at position 0''))"

subsection \<open>Sample chat data\<close>

definition session_a :: session where
  "session_a =
     \<lparr> sess_id = 1, session_title = ''Tenancy question'', updated_at = ''2024-01-05'',
       message_count = Some 2 \<rparr>"

definition session_b :: session where
  "session_b =
     \<lparr> sess_id = 2, session_title = ''Bail procedure'', updated_at = ''2024-01-07'',
       message_count = None \<rparr>"

definition session_c :: session where
  "session_c =
     \<lparr> sess_id = 3, session_title = ''Chat Session 9:00'', updated_at = ''2024-01-09'',
       message_count = None \<rparr>"

definition reply_message :: chat_message where
  "reply_message =
     \<lparr> message_type = ''assistant'', content = ''A lease is a contract.'',
       created_at = ''2024-01-09'', sources = None \<rparr>"

text \<open>The chat page after \<open>init()\<close> has loaded two sessions.\<close>

definition chat_with_sessions :: chatbot where
  "chat_with_sessions =
     loadSessions (Inr \<lparr> success = True, message = Undefined,
                           payload = [session_a, session_b] \<rparr>) ChatBot_fields"

text \<open>The same page with session 1 opened.\<close>

definition chat_in_session :: chatbot where
  "chat_in_session = loadSession_begin 1 chat_with_sessions"

text \<open>
  Session 1 is open and a question has been sent; while the reply is awaited, session 1
  is deleted from the sidebar and the deletion succeeds. The user then types again.
\<close>

definition typing_without_session :: chatbot where
  "typing_without_session =
     (deleteSession True (Some 1) (Inr \<lparr> success = True, message = Undefined, payload = () \<rparr>)
        (sendMessage_send ''9:00'' ''What is a lease?'' chat_in_session))
     \<lparr> messageInput := ''And a sublease?'' \<rparr>"

text \<open>A question typed with session 1 open, and one typed with no session selected.\<close>

definition asking_in_session :: chatbot where
  "asking_in_session = chat_in_session\<lparr> messageInput := ''What is a lease?'' \<rparr>"

definition asking_without_session :: chatbot where
  "asking_without_session = chat_with_sessions\<lparr> messageInput := ''  What is a lease? '' \<rparr>"

section \<open>API client: the request contract\<close>

lemma request_fetch_rejected:
  "net (base @ endpoint) (build_request_options options) = FetchRejected e
     \<Longrightarrow> request base net endpoint options = Inl e"
  by (simp add: request_def)

lemma request_unparsed_body:
  "net (base @ endpoint) (build_request_options options) = FetchResponse status (Inl e)
     \<Longrightarrow> request base net endpoint options = Inl e"
  by (simp add: request_def)

lemma request_parsed_body:
  "net (base @ endpoint) (build_request_options options) = FetchResponse status (Inr d) \<Longrightarrow>
     request base net endpoint options =
       (if 200 \<le> status \<and> status \<le> 299 then Inr d
        else case get_prop d ''message'' of
               Inl e \<Rightarrow> Inl e
             | Inr m \<Rightarrow> Inl (Error (if truthy m then toString m
                                     else ''HTTP error! status: '' @ string_of_nat status)))"
  by (simp add: request_def response_ok_def)

text \<open>
  Claim C6, as the code has it. The body is parsed before the status is looked at.
  When the body parses as JSON, \<open>API.request\<close> returns it if the status is between 200
  and 299; otherwise it throws an \<open>Error\<close> whose message is the \<open>message\<close> field of
  the body when that is a string that is not empty, and the text
  \<open>HTTP error! status: N\<close> when the field is absent or falsy. When the body does not
  parse, the parse error is thrown whatever the status; when the status is not 2xx and
  the body is \<open>null\<close>, the error of reading its \<open>message\<close> is thrown; and a rejected
  \<open>fetch\<close> is rethrown.
\<close>

theorem request_contract:
  "(net (base @ endpoint) (build_request_options options) = FetchResponse status (Inr d) \<and>
      200 \<le> status \<and> status \<le> 299 \<longrightarrow>
      request base net endpoint options = Inr d) \<and>
   (net (base @ endpoint) (build_request_options options) = FetchResponse status (Inr d) \<and>
      \<not> (200 \<le> status \<and> status \<le> 299) \<and> get_prop d ''message'' = Inr (JStr m) \<and> m \<noteq> [] \<longrightarrow>
      request base net endpoint options = Inl (Error m)) \<and>
   (net (base @ endpoint) (build_request_options options) = FetchResponse status (Inr d) \<and>
      \<not> (200 \<le> status \<and> status \<le> 299) \<and> get_prop d ''message'' = Inr v \<and> \<not> truthy v \<longrightarrow>
      request base net endpoint options =
        Inl (Error (''HTTP error! status: '' @ string_of_nat status))) \<and>
   (net (base @ endpoint) (build_request_options options) = FetchResponse status (Inr d) \<and>
      \<not> (200 \<le> status \<and> status \<le> 299) \<and> get_prop d ''message'' = Inl e' \<longrightarrow>
      request base net endpoint options = Inl e') \<and>
   (net (base @ endpoint) (build_request_options options) = FetchResponse status (Inl e) \<longrightarrow>
      request base net endpoint options = Inl e) \<and>
   (net (base @ endpoint) (build_request_options options) = FetchRejected e \<longrightarrow>
      request base net endpoint options = Inl e)"
proof -
  have parsed: "net (base @ endpoint) (build_request_options options) = FetchResponse status (Inr d)
      \<longrightarrow> request base net endpoint options =
       (if 200 \<le> status \<and> status \<le> 299 then Inr d
        else case get_prop d ''message'' of
               Inl e \<Rightarrow> Inl e
             | Inr m \<Rightarrow> Inl (Error (if truthy m then toString m
                                     else ''HTTP error! status: '' @ string_of_nat status)))"
    by (simp add: request_parsed_body)
  have unparsed: "net (base @ endpoint) (build_request_options options) = FetchResponse status (Inl e)
      \<longrightarrow> request base net endpoint options = Inl e"
    by (simp add: request_unparsed_body)
  have rejected: "net (base @ endpoint) (build_request_options options) = FetchRejected e
      \<longrightarrow> request base net endpoint options = Inl e"
    by (simp add: request_fetch_rejected)
  from parsed unparsed rejected show ?thesis by auto
qed

theorem request_contract_witness:
  "request ''/api'' (json_server 200 (JObj [(''success'', JBool True)])) ''/documents'' get_options
     = Inr (JObj [(''success'', JBool True)]) \<and>
   request ''/api''
     (json_server 404 (JObj [(''success'', JBool False), (''message'', JStr ''Document not found'')]))
     ''/documents/9'' get_options
     = Inl (Error ''Document not found'') \<and>
   request ''/api'' (json_server 500 (JObj [(''success'', JBool False)])) ''/documents/9''
     get_options
     = Inl (Error ''HTTP error! status: 500'') \<and>
   request ''/api'' bad_gateway ''/documents/9'' get_options
     = Inl (SyntaxError ''Unexpected token < in JSON at position 0'')"
proof -
  have n500: "string_of_nat 500 = ''500''"
    by (simp add: string_of_nat.simps digit_char_def)
  have ok: "request ''/api'' (json_server 200 (JObj [(''success'', JBool True)])) ''/documents''
              get_options = Inr (JObj [(''success'', JBool True)])"
    using request_contract
            [of "json_server 200 (JObj [(''success'', JBool True)])" "''/api''" "''/documents''"
                get_options 200 "JObj [(''success'', JBool True)]"]
    by (simp add: json_server_def)
  have found: "request ''/api''
       (json_server 404
          (JObj [(''success'', JBool False), (''message'', JStr ''Document not found'')]))
       ''/documents/9'' get_options = Inl (Error ''Document not found'')"
    using request_contract
            [of "json_server 404
                   (JObj [(''success'', JBool False), (''message'', JStr ''Document not found'')])"
                "''/api''" "''/documents/9''" get_options 404
                "JObj [(''success'', JBool False), (''message'', JStr ''Document not found'')]"
                "''Document not found''"]
    by (simp add: json_server_def)
  have fallback: "request ''/api'' (json_server 500 (JObj [(''success'', JBool False)]))
       ''/documents/9'' get_options = Inl (Error ''HTTP error! status: 500'')"
    using request_contract
            [of "json_server 500 (JObj [(''success'', JBool False)])" "''/api''" "''/documents/9''"
                get_options 500 "JObj [(''success'', JBool False)]" _ JUndefined]
    by (simp add: json_server_def n500)
  have gateway: "request ''/api'' bad_gateway ''/documents/9'' get_options
       = Inl (SyntaxError ''Unexpected token < in JSON at position 0'')"
    using request_contract
            [of bad_gateway "''/api''" "''/documents/9''" get_options 502 _ _ _ _
                "SyntaxError ''Unexpected token < in JSON at position 0''"]
    by (simp add: bad_gateway_def)
  from ok found fallback gateway show ?thesis by blast
qed

text \<open>
  A gateway answers a request with status 502 and an HTML page. The body has no
  \<open>message\<close> field, yet the error thrown is the parse error of \<open>response.json()\<close>, not
  an error with the text \<open>HTTP error! status: 502\<close>. Likewise a body \<open>null\<close> under
  status 500 gives a \<open>TypeError\<close>.
\<close>

theorem request_unparsed_error_body_counterexample:
  "request ''/api'' bad_gateway ''/documents/9'' get_options
     = Inl (SyntaxError ''Unexpected token < in JSON at position 0'') \<and>
   request ''/api'' bad_gateway ''/documents/9'' get_options
     \<noteq> Inl (Error ''HTTP error! status: 502'') \<and>
   request ''/api'' (json_server 500 JNull) ''/documents/9'' get_options
     = Inl (TypeError (''Cannot read properties of null (reading '' @ [CHR 0x27] @ ''message''
                         @ [CHR 0x27] @ '')''))"
  by (simp add: request_def bad_gateway_def json_server_def response_ok_def)

section \<open>Lawyer network: who may connect\<close>

text \<open>
  Claim C3, as the code has it. \<open>canConnect\<close> is truthy exactly when the lawyer record
  has no connection status, a user is logged in, and that user's id is not the lawyer's
  id. In particular it is falsy whenever a status is set or the viewer is the lawyer.
\<close>

theorem canConnect_eligibility:
  "truthy (canConnect currentUser l) =
     (\<not> truthy_str (connection_status l) \<and>
      current_user_id currentUser \<noteq> None \<and>
      current_user_id currentUser \<noteq> Some (lawyer_id l))"
  by (cases currentUser) (simp_all add: canConnect_def current_user_id_def)

text \<open>
  The two conditions of the specification alone do not decide eligibility: for a viewer
  who is not logged in and a lawyer without a connection status both hold, and
  \<open>canConnect\<close> returns \<open>null\<close>.
\<close>

theorem canConnect_spec_anonymous_counterexample:
  "canConnect_spec Null
     \<lparr> lawyer_id = 7, lawyer_name = ''A. Rao'', qualifications = Null,
       connection_status = Null \<rparr>
   \<and> canConnect Null
     \<lparr> lawyer_id = 7, lawyer_name = ''A. Rao'', qualifications = Null,
       connection_status = Null \<rparr> = JNull
   \<and> \<not> truthy (canConnect Null
     \<lparr> lawyer_id = 7, lawyer_name = ''A. Rao'', qualifications = Null,
       connection_status = Null \<rparr>)"
  by (simp add: canConnect_spec_def canConnect_def current_user_id_def)



section \<open>Document manager: validation of uploads\<close>

lemmas dm_page_defs =
  showAlert_def showUploadProgress_def showDocumentsLoading_def renderDocuments_def
  clearUploadForm_def loadDocuments_begin_def loadDocuments_catch_def

lemmas dm_new_defs = DocumentManager_new_def DocumentManager_fields_def

lemma strip_extension_contract: "strip_extension ''contract.pdf'' = ''contract''"
  by code_simp

lemma strip_extension_deed: "strip_extension ''deed.v2.pdf'' = ''deed.v2''"
  by code_simp

text \<open>
  \<open>validateFile\<close> itself does what the specification says: a file over 50MB or of a
  type outside the list is refused with an \<open>error\<close> alert, and nothing is sent.
\<close>

lemma validateFile_rejects:
  assumes "file_size f > maxFileSize s \<or> file_type f \<notin> set (allowedTypes s)"
  shows "fst (validateFile f s) = False"
    and "\<exists>msg. alerts (snd (validateFile f s)) = (msg, ''error'') # alerts s"
    and "requests_sent (snd (validateFile f s)) = requests_sent s"
    and "uploads_in_flight (snd (validateFile f s)) = uploads_in_flight s"
  using assms by (auto simp: validateFile_def showAlert_def)

lemma validateFile_accepts:
  "fst (validateFile f s) = (file_size f \<le> maxFileSize s \<and> file_type f \<in> set (allowedTypes s))"
  by (auto simp: validateFile_def)

lemma validateFile_limits:
  "fst (validateFile f DocumentManager_new) =
     (file_size f \<le> 50 * 1024 * 1024 \<and>
      file_type f \<in> {''application/pdf'', ''application/msword'',
        ''application/vnd.openxmlformats-officedocument.wordprocessingml.document'',
        ''text/plain''})"
  by (simp add: validateFile_accepts dm_new_defs dm_page_defs)

text \<open>Every upload that \<open>processFiles\<close> starts is for a file that passed both checks.\<close>

lemma uploadFile_begin_requests:
  "set (requests_sent (uploadFile_begin f s)) \<subseteq>
     set (requests_sent s) \<union>
       {UploadDocument \<lparr> fd_file = f, fd_title = strip_extension (file_name f),
                          fd_analyze = ''true'' \<rparr>}"
  by (auto simp: uploadFile_begin_def showAlert_def showUploadProgress_def Let_def)

lemma uploadFile_begin_limits:
  "maxFileSize (uploadFile_begin f s) = maxFileSize s \<and>
   allowedTypes (uploadFile_begin f s) = allowedTypes s"
  by (simp add: uploadFile_begin_def showAlert_def showUploadProgress_def Let_def)

lemma validateFile_limits_kept:
  "maxFileSize (snd (validateFile f s)) = maxFileSize s \<and>
   allowedTypes (snd (validateFile f s)) = allowedTypes s"
  by (simp add: validateFile_def showAlert_def)

lemma processFiles_uploads_valid_only:
  "UploadDocument fd \<in> set (requests_sent (processFiles files s)) \<Longrightarrow>
   UploadDocument fd \<notin> set (requests_sent s) \<Longrightarrow>
   fd_file fd \<in> set files \<and> file_size (fd_file fd) \<le> maxFileSize s \<and>
   file_type (fd_file fd) \<in> set (allowedTypes s)"
proof (induction files arbitrary: s)
  case Nil
  then show ?case by (simp add: processFiles_def)
next
  case (Cons f files)
  define s1 where "s1 = snd (validateFile f s)"
  define s2 where "s2 = (if fst (validateFile f s) then uploadFile_begin f s1 else s1)"
  have step: "processFiles (f # files) s = processFiles files s2"
    by (simp add: processFiles_def s1_def s2_def split: prod.splits)
  have limits: "maxFileSize s2 = maxFileSize s" "allowedTypes s2 = allowedTypes s"
    by (simp_all add: s2_def s1_def uploadFile_begin_limits validateFile_limits_kept)
  have sent1: "requests_sent s1 = requests_sent s"
    by (simp add: s1_def validateFile_def showAlert_def)
  show ?case
  proof (cases "UploadDocument fd \<in> set (requests_sent s2)")
    case True
    with Cons.prems(2) sent1 have ok: "fst (validateFile f s)"
      by (auto simp: s2_def split: if_splits)
    with True Cons.prems(2) sent1 uploadFile_begin_requests [of f s1]
    have "fd_file fd = f" by (auto simp: s2_def)
    with ok show ?thesis by (simp add: validateFile_accepts)
  next
    case False
    from Cons.IH [OF Cons.prems(1) [unfolded step] False] limits
    show ?thesis by simp
  qed
qed

text \<open>
  Claim C1, at the input where the code departs from it. A 60MB PDF is chosen in the
  file input: \<open>processFiles\<close> refuses it with an alert and sends nothing. The form is
  then submitted: \<open>handleUpload\<close> hands the same file to \<open>uploadFile\<close> without
  validating it, and the upload request goes out.
\<close>

theorem handleUpload_skips_validation:
  "fst (validateFile oversize_pdf DocumentManager_new) = False \<and>
   requests_sent (dm_run [FilesSelected [oversize_pdf]] DocumentManager_new) = [GetDocuments] \<and>
   alerts (dm_run [FilesSelected [oversize_pdf]] DocumentManager_new) =
     [(''File '' @ dquote @ ''contract.pdf'' @ dquote @ '' is too large. Maximum size is 50MB.'',
       ''error'')] \<and>
   requests_sent (dm_run [FilesSelected [oversize_pdf], FormSubmitted] DocumentManager_new) =
     [GetDocuments,
      UploadDocument \<lparr> fd_file = oversize_pdf, fd_title = ''contract'', fd_analyze = ''true'' \<rparr>]"
  by (simp add: dm_run_def handleFileSelect_def processFiles_def handleUpload_def
        validateFile_def uploadFile_begin_def dm_page_defs dm_new_defs oversize_pdf_def
        strip_extension_contract Let_def)

section \<open>Document manager: one upload at a time\<close>

lemma upload_serialized_showAlert [simp]:
  "upload_serialized (showAlert msg type s) = upload_serialized s"
  by (simp add: upload_serialized_def showAlert_def)






lemma upload_serialized_files_update [simp]:
  "upload_serialized (s\<lparr>documentFile_files := fs\<rparr>) = upload_serialized s"
  by (simp add: upload_serialized_def)

lemma upload_serialized_search_update [simp]:
  "upload_serialized (s\<lparr>documentSearch_value := v\<rparr>) = upload_serialized s"
  by (simp add: upload_serialized_def)

lemma upload_serialized_type_update [simp]:
  "upload_serialized (s\<lparr>typeFilter_value := v\<rparr>) = upload_serialized s"
  by (simp add: upload_serialized_def)

lemma upload_serialized_grid_update [simp]:
  "upload_serialized (s\<lparr>documentsGrid := g\<rparr>) = upload_serialized s"
  by (simp add: upload_serialized_def)









section \<open>Document manager: searching the loaded documents\<close>

lemma starts_with_iff: "starts_with s t \<longleftrightarrow> (\<exists>post. s = t @ post)"
  by (induction s t rule: starts_with.induct) auto

lemma includes_str_iff: "includes_str s t \<longleftrightarrow> (\<exists>pre post. s = pre @ t @ post)"
proof (induction s)
  case Nil
  then show ?case by auto
next
  case (Cons x xs)
  have "(\<exists>pre post. x # xs = pre @ t @ post) \<longleftrightarrow>
        (\<exists>post. x # xs = t @ post) \<or> (\<exists>pre post. xs = pre @ t @ post)"
  proof
    assume "\<exists>pre post. x # xs = pre @ t @ post"
    then obtain pre post where eq: "x # xs = pre @ t @ post" by blast
    show "(\<exists>post. x # xs = t @ post) \<or> (\<exists>pre post. xs = pre @ t @ post)"
    proof (cases pre)
      case Nil
      with eq show ?thesis by auto
    next
      case (Cons p ps)
      with eq have "xs = ps @ t @ post" by simp
      then show ?thesis by blast
    qed
  next
    assume "(\<exists>post. x # xs = t @ post) \<or> (\<exists>pre post. xs = pre @ t @ post)"
    then show "\<exists>pre post. x # xs = pre @ t @ post"
    proof
      assume "\<exists>post. x # xs = t @ post"
      then obtain post where "x # xs = [] @ t @ post" by auto
      then show ?thesis by blast
    next
      assume "\<exists>pre post. xs = pre @ t @ post"
      then obtain pre post where "x # xs = (x # pre) @ t @ post" by auto
      then show ?thesis by blast
    qed
  qed
  with Cons.IH show ?case by (simp add: starts_with_iff)
qed

lemma includes_str_contains_ci: "includes_str (toLowerCase text) (toLowerCase t) = contains_ci text t"
  by (simp add: includes_str_iff contains_ci_def)

lemma contains_ci_empty_text: "t \<noteq> [] \<Longrightarrow> \<not> contains_ci [] t"
  by (simp add: contains_ci_def toLowerCase_def)

text \<open>For a term that is not empty, the test in the code is the one in the specification.\<close>

lemma matches_search_iff: "t \<noteq> [] \<Longrightarrow> matches_search t d = doc_matches t d"
  by (cases "summary d")
     (auto simp: matches_search_def doc_matches_def includes_str_contains_ci
        contains_ci_empty_text)

lemma lower_letters_fixed:
  "list_all
     (\<lambda>d. map_of (zip ''ABCDEFGHIJKLMNOPQRSTUVWXYZ'' ''abcdefghijklmnopqrstuvwxyz'') d = None)
     ''abcdefghijklmnopqrstuvwxyz''"
  by code_simp

lemma toLowerCase_idem: "toLowerCase (toLowerCase s) = toLowerCase s"
proof -
  have "lower_char (lower_char c) = lower_char c" for c
  proof (cases "map_of (zip ''ABCDEFGHIJKLMNOPQRSTUVWXYZ'' ''abcdefghijklmnopqrstuvwxyz'') c")
    case None
    then show ?thesis by (simp add: lower_char_def)
  next
    case (Some d)
    then have "d \<in> set ''abcdefghijklmnopqrstuvwxyz''"
      by (meson map_of_SomeD set_zip_rightD)
    with lower_letters_fixed
    have "map_of (zip ''ABCDEFGHIJKLMNOPQRSTUVWXYZ'' ''abcdefghijklmnopqrstuvwxyz'') d = None"
      unfolding list_all_iff by blast
    with Some show ?thesis by (simp add: lower_char_def)
  qed
  then show ?thesis by (simp add: toLowerCase_def)
qed

text \<open>The letter case of the term does not matter.\<close>

lemma doc_matches_term_case: "doc_matches (toLowerCase t) d = doc_matches t d"
  by (simp add: doc_matches_def contains_ci_def toLowerCase_idem)

lemma rendered_renderDocuments: "rendered (documentsGrid (renderDocuments ds s)) = ds"
  by (cases ds) (simp_all add: renderDocuments_def)

lemma lease_matches_lease_doc: "matches_search ''lease'' lease_doc"
  by code_simp

lemma lease_matches_notice_doc: "matches_search ''lease'' notice_doc"
  by code_simp

lemma lease_matches_will_doc: "\<not> matches_search ''lease'' will_doc"
  by code_simp

lemmas lease_matches = lease_matches_lease_doc lease_matches_notice_doc lease_matches_will_doc

lemma sample_status:
  "analysis_status lease_doc = Val ''completed''" "analysis_status notice_doc = Val ''pending''"
  "analysis_status will_doc = Val ''completed''"
  by (simp_all add: lease_doc_def notice_doc_def will_doc_def)

lemma loaded_manager_page:
  "currentDocuments loaded_manager = [lease_doc, notice_doc, will_doc]"
  "typeFilter_value loaded_manager = Some []"
  "documentSearch_value loaded_manager = Some []"
  by (simp_all add: loaded_manager_def dm_run_def loadDocuments_resume_def dm_page_defs
        dm_new_defs)

lemma completed_only_manager_page:
  "currentDocuments completed_only_manager = [lease_doc, notice_doc, will_doc]"
  "typeFilter_value completed_only_manager = Some ''completed''"
  "documentSearch_value completed_only_manager = Some []"
  by (simp_all add: completed_only_manager_def dm_run_def filterDocuments_def
        renderDocuments_def Let_def loaded_manager_page)

text \<open>
  Claim C7, as the code has it. \<open>filterDocuments\<close> renders, in their order, exactly the
  loaded documents that pass two filters. The search filter uses the search box's value
  when that is not empty and the argument otherwise; if the resulting term is not empty,
  a document passes when its title, or its summary when it has one, contains the term
  regardless of letter case. The status filter, when a status is selected, passes the
  documents whose \<open>analysis_status\<close> is that status. With no status selected and a
  search box that is empty or holds the argument, these are exactly the documents that
  match the argument.
\<close>

theorem filterDocuments_renders:
  "rendered (documentsGrid (filterDocuments searchTerm s)) =
     filter (\<lambda>d. (effective_search searchTerm s \<noteq> [] \<longrightarrow>
                     doc_matches (effective_search searchTerm s) d) \<and>
                  (selected_type s \<noteq> [] \<longrightarrow> analysis_status d = Val (selected_type s)))
       (currentDocuments s) \<and>
   (searchTerm \<noteq> [] \<and> selected_type s = [] \<and> effective_search searchTerm s = searchTerm \<longrightarrow>
      rendered (documentsGrid (filterDocuments searchTerm s)) =
        filter (doc_matches searchTerm) (currentDocuments s))"
proof -
  define t where "t = effective_search searchTerm s"
  define ty where "ty = selected_type s"
  define found where
    "found = (if t \<noteq> [] then filter (matches_search t) (currentDocuments s)
              else currentDocuments s)"
  have code: "rendered (documentsGrid (filterDocuments searchTerm s)) =
                (if ty \<noteq> [] then filter (\<lambda>d. analysis_status d = Val ty) found else found)"
    by (auto simp: filterDocuments_def Let_def rendered_renderDocuments found_def t_def ty_def
          effective_search_def selected_type_def split: option.splits)
  have found_eq: "found = filter (\<lambda>d. t \<noteq> [] \<longrightarrow> doc_matches t d) (currentDocuments s)"
    by (cases "t = []") (simp_all add: found_def matches_search_iff cong: filter_cong)
  have general: "rendered (documentsGrid (filterDocuments searchTerm s)) =
     filter (\<lambda>d. (t \<noteq> [] \<longrightarrow> doc_matches t d) \<and> (ty \<noteq> [] \<longrightarrow> analysis_status d = Val ty))
       (currentDocuments s)"
    by (cases "ty = []") (simp_all add: code found_eq conj_commute)
  then show ?thesis by (auto simp: t_def ty_def)
qed

theorem filterDocuments_renders_witness:
  "''lease'' \<noteq> [] \<and> selected_type loaded_manager = [] \<and>
   effective_search ''lease'' loaded_manager = ''lease'' \<and>
   rendered (documentsGrid (filterDocuments ''lease'' loaded_manager)) =
     filter (doc_matches ''lease'') (currentDocuments loaded_manager) \<and>
   filter (doc_matches ''lease'') (currentDocuments loaded_manager) = [lease_doc, notice_doc]"
proof -
  have page: "selected_type loaded_manager = []"
    "effective_search ''lease'' loaded_manager = ''lease''"
    by (simp_all add: selected_type_def effective_search_def loaded_manager_page)
  have "filter (matches_search ''lease'') (currentDocuments loaded_manager)
          = [lease_doc, notice_doc]"
    by (simp add: loaded_manager_page lease_matches)
  then have shown: "filter (doc_matches ''lease'') (currentDocuments loaded_manager)
          = [lease_doc, notice_doc]"
    by (simp add: matches_search_iff cong: filter_cong)
  from page shown filterDocuments_renders [of "''lease''" loaded_manager]
  show ?thesis by simp
qed

text \<open>
  With the status filter set to \<open>completed\<close>, a search for \<open>lease\<close> leaves out a
  loaded document whose summary contains the term, because its status is \<open>pending\<close>.
\<close>

theorem filterDocuments_exactly_matching_counterexample:
  "notice_doc \<in> set (currentDocuments completed_only_manager) \<and>
   doc_matches ''lease'' notice_doc \<and>
   rendered (documentsGrid (filterDocuments ''lease'' completed_only_manager)) = [lease_doc] \<and>
   notice_doc \<notin> set (rendered (documentsGrid (filterDocuments ''lease'' completed_only_manager)))"
proof -
  have m: "doc_matches ''lease'' notice_doc"
    using matches_search_iff [of "''lease''" notice_doc] lease_matches_notice_doc by simp
  have r: "rendered (documentsGrid (filterDocuments ''lease'' completed_only_manager))
             = [lease_doc]"
    by (simp add: filterDocuments_def Let_def rendered_renderDocuments
          completed_only_manager_page lease_matches sample_status)
  have "notice_doc \<noteq> lease_doc" by (simp add: notice_doc_def lease_doc_def)
  with m r show ?thesis by (simp add: completed_only_manager_page)
qed

section \<open>Chat manager: the session list\<close>

lemmas chat_page_defs =
  chat_showAlert_def issue_def renderSessions_def renderMessages_def addMessageToUI_def
  showTypingIndicator_def hideTypingIndicator_def

lemmas chat_sample_defs = session_a_def session_b_def session_c_def reply_message_def

lemma chat_with_sessions_fields:
  "sessions chat_with_sessions = [session_a, session_b]"
  "currentSessionId chat_with_sessions = None"
  "isTyping chat_with_sessions = False"
  "chat_requests chat_with_sessions = [GetSessions]"
  "chatMessages chat_with_sessions = [WelcomeMessage]"
  "chatSessions chat_with_sessions = SessionsItems [(session_a, False), (session_b, False)]"
  by (simp_all add: chat_with_sessions_def loadSessions_def loadSessions_begin_def
        loadSessions_resume_def ChatBot_fields_def chat_page_defs)

lemma chat_in_session_fields:
  "sessions chat_in_session = [session_a, session_b]"
  "currentSessionId chat_in_session = Some 1"
  "isTyping chat_in_session = False"
  "chat_requests chat_in_session = [GetSessions, GetMessages 1]"
  "chatMessages chat_in_session = [WelcomeMessage]"
  by (simp_all add: chat_in_session_def loadSession_begin_def chat_page_defs
        chat_with_sessions_fields)

text \<open>
  Claim C4, as the code has it. When the request for the session list is rejected,
  \<open>loadSessions\<close> puts the failure panel in the sidebar and changes nothing else: the
  stored list is the one that was there before, empty only if nothing had been loaded.
\<close>

theorem loadSessions_rejected:
  "loadSessions (Inl e) s =
     s\<lparr>chatSessions := SessionsLoadFailed, chat_requests := chat_requests s @ [GetSessions]\<rparr> \<and>
   sessions (loadSessions (Inl e) s) = sessions s \<and>
   chatSessions (loadSessions (Inl e) s) = SessionsLoadFailed"
  by (simp add: loadSessions_def loadSessions_begin_def loadSessions_resume_def issue_def)

text \<open>
  After a first load that brought two sessions, a refresh that fails leaves both in the
  stored list.
\<close>

theorem loadSessions_stale_counterexample:
  "sessions (loadSessions (Inl (TypeError ''Failed to fetch'')) chat_with_sessions)
     = [session_a, session_b] \<and>
   sessions (loadSessions (Inl (TypeError ''Failed to fetch'')) chat_with_sessions) \<noteq> [] \<and>
   chatSessions (loadSessions (Inl (TypeError ''Failed to fetch'')) chat_with_sessions)
     = SessionsLoadFailed"
  by (simp add: loadSessions_def loadSessions_begin_def loadSessions_resume_def issue_def
        chat_with_sessions_fields)

text \<open>A body with \<open>success: false\<close> is not treated as a failure: only the request is logged.\<close>

lemma loadSessions_unsuccessful:
  "\<not> success response \<Longrightarrow>
     loadSessions (Inr response) s = s\<lparr>chat_requests := chat_requests s @ [GetSessions]\<rparr>"
  by (simp add: loadSessions_def loadSessions_begin_def loadSessions_resume_def issue_def)

section \<open>Chat manager: deleting a session\<close>

lemma deleteSession_resume_sessions:
  "sessions (deleteSession_resume (Some sid) (Inr response) s) =
     filter (\<lambda>x. sess_id x \<noteq> sid) (sessions s)"
  by (simp add: deleteSession_resume_def chat_page_defs Let_def)

lemma deleteSession_resume_current:
  "currentSessionId (deleteSession_resume (Some sid) (Inr response) s) =
     (if currentSessionId s = Some sid then None else currentSessionId s)"
  by (simp add: deleteSession_resume_def chat_page_defs Let_def)

text \<open>
  Claim C10. After a confirmed \<open>deleteSession(id)\<close> whose request succeeds, the stored
  list is the old list without the sessions of that id, the others unchanged and in
  their order; no session of that id remains; and the current session is \<open>null\<close> if it
  was \<open>id\<close> and unchanged otherwise, so that it is never the deleted session.
\<close>

theorem deleteSession_removes:
  "sessions (deleteSession True (Some sid) (Inr response) s) =
     filter (\<lambda>x. sess_id x \<noteq> sid) (sessions s) \<and>
   (\<forall>x \<in> set (sessions (deleteSession True (Some sid) (Inr response) s)). sess_id x \<noteq> sid) \<and>
   (currentSessionId s = Some sid \<longrightarrow>
      currentSessionId (deleteSession True (Some sid) (Inr response) s) = None) \<and>
   (currentSessionId s \<noteq> Some sid \<longrightarrow>
      currentSessionId (deleteSession True (Some sid) (Inr response) s) = currentSessionId s) \<and>
   currentSessionId (deleteSession True (Some sid) (Inr response) s) \<noteq> Some sid"
proof -
  have unchanged: "sessions (deleteSession_begin (Some sid) s) = sessions s"
    "currentSessionId (deleteSession_begin (Some sid) s) = currentSessionId s"
    by (simp_all add: deleteSession_begin_def issue_def)
  have list: "sessions (deleteSession True (Some sid) (Inr response) s) =
                filter (\<lambda>x. sess_id x \<noteq> sid) (sessions s)"
    by (simp add: deleteSession_def deleteSession_resume_sessions unchanged)
  have cur: "currentSessionId (deleteSession True (Some sid) (Inr response) s) =
               (if currentSessionId s = Some sid then None else currentSessionId s)"
    by (simp add: deleteSession_def deleteSession_resume_current unchanged)
  from list cur show ?thesis by auto
qed

theorem deleteSession_removes_witness:
  "currentSessionId chat_in_session = Some 1 \<and>
   sessions (deleteSession True (Some 1)
               (Inr \<lparr> success = True, message = Undefined, payload = () \<rparr>) chat_in_session)
     = [session_b] \<and>
   currentSessionId (deleteSession True (Some 1)
               (Inr \<lparr> success = True, message = Undefined, payload = () \<rparr>) chat_in_session)
     = None \<and>
   currentSessionId chat_in_session \<noteq> Some 2 \<and>
   sessions (deleteSession True (Some 2)
               (Inr \<lparr> success = True, message = Undefined, payload = () \<rparr>) chat_in_session)
     = [session_a] \<and>
   currentSessionId (deleteSession True (Some 2)
               (Inr \<lparr> success = True, message = Undefined, payload = () \<rparr>) chat_in_session)
     = Some 1"
  using deleteSession_removes
          [of 1 "\<lparr> success = True, message = Undefined, payload = () \<rparr>" chat_in_session]
        deleteSession_removes
          [of 2 "\<lparr> success = True, message = Undefined, payload = () \<rparr>" chat_in_session]
  by (simp add: chat_in_session_fields chat_sample_defs)

text \<open>
  A declined confirmation or a rejected request leaves the list and the current session
  as they were.
\<close>

lemma deleteSession_not_done:
  "sessions (deleteSession False sessionId outcome s) = sessions s"
  "currentSessionId (deleteSession False sessionId outcome s) = currentSessionId s"
  "sessions (deleteSession True sessionId (Inl e) s) = sessions s"
  "currentSessionId (deleteSession True sessionId (Inl e) s) = currentSessionId s"
  by (simp_all add: deleteSession_def deleteSession_begin_def deleteSession_resume_def
        issue_def chat_showAlert_def)

section \<open>Chat manager: sending a message\<close>

lemma trim_samples:
  "trim ''What is a lease?'' = ''What is a lease?''"
  "trim ''  What is a lease? '' = ''What is a lease?''"
  "trim ''And a sublease?'' = ''And a sublease?''"
  by code_simp+

lemma apologies_differ: "apology_error \<noteq> apology_connection"
  by (simp add: apology_error_def apology_connection_def)

lemma createNewSession_done:
  "success r \<Longrightarrow>
     currentSessionId (createNewSession now (Inr r) s) = Some (sess_id (payload r)) \<and>
     chat_requests (createNewSession now (Inr r) s) =
       chat_requests s @ [PostSession (''Chat Session '' @ now), GetMessages (sess_id (payload r))] \<and>
     sessions (createNewSession now (Inr r) s) = payload r # sessions s"
  by (simp add: createNewSession_def createNewSession_begin_def createNewSession_resume_def
        loadSession_begin_def chat_page_defs Let_def)

lemma createNewSession_not_done:
  "create_outcome = Inl e \<or> (create_outcome = Inr r \<and> \<not> success r) \<Longrightarrow>
     currentSessionId (createNewSession now create_outcome s) = currentSessionId s \<and>
     chat_requests (createNewSession now create_outcome s) =
       chat_requests s @ [PostSession (''Chat Session '' @ now)] \<and>
     sessions (createNewSession now create_outcome s) = sessions s"
  by (auto simp: createNewSession_def createNewSession_begin_def createNewSession_resume_def
        chat_page_defs Let_def)

lemma createNewSession_sets_current:
  "currentSessionId s = None \<Longrightarrow>
     truthy_id (currentSessionId (createNewSession now create_outcome s)) =
       (\<exists>r. create_outcome = Inr r \<and> success r \<and> sess_id (payload r) \<noteq> 0)"
proof (cases create_outcome)
  case (Inl e)
  assume "currentSessionId s = None"
  with Inl createNewSession_not_done [of create_outcome e undefined now s]
  show ?thesis by simp
next
  case (Inr r)
  assume none: "currentSessionId s = None"
  show ?thesis
  proof (cases "success r")
    case True
    with Inr createNewSession_done [of r now s] show ?thesis by simp
  next
    case False
    with Inr none createNewSession_not_done [of create_outcome undefined r now s]
    show ?thesis by simp
  qed
qed

lemma sendMessage_send_effect:
  "chat_requests (sendMessage_send now msg s) = chat_requests s @ [PostChat (currentSessionId s) msg]"
  "currentSessionId (sendMessage_send now msg s) = currentSessionId s"
  "isTyping (sendMessage_send now msg s)"
  by (simp_all add: sendMessage_send_def chat_page_defs Let_def)

lemma sendMessage_reply_effect:
  "chat_requests (sendMessage_reply now chat_outcome sessions_outcome s) =
     chat_requests s @
       (case chat_outcome of
          Inl e \<Rightarrow> []
        | Inr rc \<Rightarrow> if success rc then [GetSessions] else [])"
  "currentSessionId (sendMessage_reply now chat_outcome sessions_outcome s) = currentSessionId s"
  "\<not> isTyping (sendMessage_reply now chat_outcome sessions_outcome s)"
  by (auto simp: sendMessage_reply_def loadSessions_def loadSessions_begin_def
        loadSessions_resume_def chat_page_defs Let_def split: sum.splits)

text \<open>
  Claim C8, as the code has it. A call of \<open>sendMessage\<close> with a message that is not
  empty after trimming, while no session is selected and no reply is awaited, first
  requests a new session. If that succeeds with a session whose id is not 0, the session
  becomes the current one, and the chat request that follows is addressed to it. If it
  leaves no current session, \<open>sendMessage\<close> ends there: the only requests are the one
  for the session and, when the creation succeeded with the id 0, the one for its
  messages; no chat request is sent.
\<close>

theorem sendMessage_creates_session:
  assumes "trim (messageInput s) \<noteq> []" and "currentSessionId s = None" and "\<not> isTyping s"
  shows
    "(create_outcome = Inr r \<and> success r \<and> sess_id (payload r) \<noteq> 0 \<longrightarrow>
        chat_requests (sendMessage now create_outcome chat_outcome sessions_outcome s) =
          chat_requests s @
            [PostSession (''Chat Session '' @ now), GetMessages (sess_id (payload r)),
             PostChat (Some (sess_id (payload r))) (trim (messageInput s))] @
            (case chat_outcome of
               Inl e \<Rightarrow> []
             | Inr rc \<Rightarrow> if success rc then [GetSessions] else []) \<and>
        currentSessionId (sendMessage now create_outcome chat_outcome sessions_outcome s) =
          Some (sess_id (payload r))) \<and>
     (\<not> truthy_id (currentSessionId (createNewSession now create_outcome s)) \<longrightarrow>
        sendMessage now create_outcome chat_outcome sessions_outcome s =
          createNewSession now create_outcome s \<and>
        chat_requests (sendMessage now create_outcome chat_outcome sessions_outcome s) =
          chat_requests s @
            PostSession (''Chat Session '' @ now) #
            (case create_outcome of
               Inl e \<Rightarrow> []
             | Inr r' \<Rightarrow> if success r' then [GetMessages (sess_id (payload r'))] else [])) \<and>
     truthy_id (currentSessionId (createNewSession now create_outcome s)) =
       (\<exists>r'. create_outcome = Inr r' \<and> success r' \<and> sess_id (payload r') \<noteq> 0)"
proof -
  define s1 where "s1 = createNewSession now create_outcome s"
  define msg where "msg = trim (messageInput s)"
  have run: "sendMessage now create_outcome chat_outcome sessions_outcome s =
               (if \<not> truthy_id (currentSessionId s1) then s1
                else sendMessage_reply now chat_outcome sessions_outcome
                       (sendMessage_send now msg s1))"
    using assms by (simp add: sendMessage_def Let_def s1_def msg_def)
  have created: "create_outcome = Inr r \<and> success r \<and> sess_id (payload r) \<noteq> 0 \<longrightarrow>
        chat_requests (sendMessage now create_outcome chat_outcome sessions_outcome s) =
          chat_requests s @
            [PostSession (''Chat Session '' @ now), GetMessages (sess_id (payload r)),
             PostChat (Some (sess_id (payload r))) msg] @
            (case chat_outcome of
               Inl e \<Rightarrow> []
             | Inr rc \<Rightarrow> if success rc then [GetSessions] else []) \<and>
        currentSessionId (sendMessage now create_outcome chat_outcome sessions_outcome s) =
          Some (sess_id (payload r))"
  proof
    assume ok: "create_outcome = Inr r \<and> success r \<and> sess_id (payload r) \<noteq> 0"
    with createNewSession_done [of r now s]
    have s1: "currentSessionId s1 = Some (sess_id (payload r))"
      "chat_requests s1 =
         chat_requests s @ [PostSession (''Chat Session '' @ now), GetMessages (sess_id (payload r))]"
      by (simp_all add: s1_def)
    from ok have nz: "sess_id (payload r) \<noteq> 0" by simp
    from s1 nz
    show "chat_requests (sendMessage now create_outcome chat_outcome sessions_outcome s) =
          chat_requests s @
            [PostSession (''Chat Session '' @ now), GetMessages (sess_id (payload r)),
             PostChat (Some (sess_id (payload r))) msg] @
            (case chat_outcome of
               Inl e \<Rightarrow> []
             | Inr rc \<Rightarrow> if success rc then [GetSessions] else []) \<and>
        currentSessionId (sendMessage now create_outcome chat_outcome sessions_outcome s) =
          Some (sess_id (payload r))"
      by (simp add: run sendMessage_reply_effect sendMessage_send_effect)
  qed
  have log1: "chat_requests s1 =
          chat_requests s @
            PostSession (''Chat Session '' @ now) #
            (case create_outcome of
               Inl e \<Rightarrow> []
             | Inr r' \<Rightarrow> if success r' then [GetMessages (sess_id (payload r'))] else [])"
  proof (cases create_outcome)
    case (Inl e)
    with createNewSession_not_done [of create_outcome e undefined now s]
    show ?thesis by (simp add: s1_def)
  next
    case (Inr r')
    show ?thesis
    proof (cases "success r'")
      case True
      with Inr createNewSession_done [of r' now s] show ?thesis by (simp add: s1_def)
    next
      case False
      with Inr createNewSession_not_done [of create_outcome undefined r' now s]
      show ?thesis by (simp add: s1_def)
    qed
  qed
  have stopped: "\<not> truthy_id (currentSessionId s1) \<longrightarrow>
        sendMessage now create_outcome chat_outcome sessions_outcome s = s1 \<and>
        chat_requests (sendMessage now create_outcome chat_outcome sessions_outcome s) =
          chat_requests s @
            PostSession (''Chat Session '' @ now) #
            (case create_outcome of
               Inl e \<Rightarrow> []
             | Inr r' \<Rightarrow> if success r' then [GetMessages (sess_id (payload r'))] else [])"
    by (simp add: run log1)
  from created stopped createNewSession_sets_current [OF assms(2), of now create_outcome]
  show ?thesis unfolding s1_def msg_def by blast
qed

theorem sendMessage_creates_session_witness:
  "trim (messageInput asking_without_session) \<noteq> [] \<and>
   currentSessionId asking_without_session = None \<and>
   \<not> isTyping asking_without_session \<and>
   chat_requests
     (sendMessage ''9:00''
        (Inr \<lparr> success = True, message = Undefined, payload = session_c \<rparr>)
        (Inr \<lparr> success = True, message = Undefined, payload = reply_message \<rparr>)
        (Inr \<lparr> success = True, message = Undefined, payload = [session_c, session_a, session_b] \<rparr>)
        asking_without_session) =
     [GetSessions, PostSession ''Chat Session 9:00'', GetMessages 3,
      PostChat (Some 3) ''What is a lease?'', GetSessions] \<and>
   chat_requests
     (sendMessage ''9:00'' (Inl (Error ''Internal error''))
        (Inr \<lparr> success = True, message = Undefined, payload = reply_message \<rparr>)
        (Inr \<lparr> success = True, message = Undefined, payload = [session_a, session_b] \<rparr>)
        asking_without_session) =
     [GetSessions, PostSession ''Chat Session 9:00'']"
proof -
  have pre: "trim (messageInput asking_without_session) = ''What is a lease?''"
    "currentSessionId asking_without_session = None"
    "\<not> isTyping asking_without_session"
    "chat_requests asking_without_session = [GetSessions]"
    by (simp_all add: asking_without_session_def chat_with_sessions_fields trim_samples)
  have failed: "\<not> truthy_id (currentSessionId
                  (createNewSession ''9:00'' (Inl (Error ''Internal error'')) asking_without_session))"
    using createNewSession_not_done
            [of "Inl (Error ''Internal error'')" "Error ''Internal error''" undefined "''9:00''"
                asking_without_session]
    by (simp add: pre)
  have nonempty: "trim (messageInput asking_without_session) \<noteq> []"
    by (simp add: pre)
  have created:
    "chat_requests
       (sendMessage ''9:00''
          (Inr \<lparr> success = True, message = Undefined, payload = session_c \<rparr>)
          (Inr \<lparr> success = True, message = Undefined, payload = reply_message \<rparr>)
          (Inr \<lparr> success = True, message = Undefined,
                 payload = [session_c, session_a, session_b] \<rparr>)
          asking_without_session) =
       [GetSessions, PostSession ''Chat Session 9:00'', GetMessages 3,
        PostChat (Some 3) ''What is a lease?'', GetSessions]"
    using sendMessage_creates_session
      [OF nonempty pre(2) pre(3),
       of "Inr \<lparr> success = True, message = Undefined, payload = session_c \<rparr>"
          "\<lparr> success = True, message = Undefined, payload = session_c \<rparr>" "''9:00''"
          "Inr \<lparr> success = True, message = Undefined, payload = reply_message \<rparr>"
          "Inr \<lparr> success = True, message = Undefined,
                 payload = [session_c, session_a, session_b] \<rparr>"]
    by (simp add: pre session_c_def)
  have "chat_requests
       (sendMessage ''9:00'' (Inl (Error ''Internal error''))
          (Inr \<lparr> success = True, message = Undefined, payload = reply_message \<rparr>)
          (Inr \<lparr> success = True, message = Undefined, payload = [session_a, session_b] \<rparr>)
          asking_without_session) =
       chat_requests asking_without_session @
         PostSession (''Chat Session '' @ ''9:00'') #
         (case (Inl (Error ''Internal error'') :: js_error + session api_response) of
            Inl e \<Rightarrow> []
          | Inr r' \<Rightarrow> if success r' then [GetMessages (sess_id (payload r'))] else [])"
    using failed sendMessage_creates_session
      [OF nonempty pre(2) pre(3),
       of "Inl (Error ''Internal error'')" undefined "''9:00''"
          "Inr \<lparr> success = True, message = Undefined, payload = reply_message \<rparr>"
          "Inr \<lparr> success = True, message = Undefined, payload = [session_a, session_b] \<rparr>"]
    by blast
  then have stopped:
    "chat_requests
       (sendMessage ''9:00'' (Inl (Error ''Internal error''))
          (Inr \<lparr> success = True, message = Undefined, payload = reply_message \<rparr>)
          (Inr \<lparr> success = True, message = Undefined, payload = [session_a, session_b] \<rparr>)
          asking_without_session) =
       [GetSessions, PostSession ''Chat Session 9:00'']"
    by (simp add: pre)
  from nonempty pre(2) pre(3) created stopped show ?thesis by blast
qed

lemma typing_without_session_fields:
  "currentSessionId typing_without_session = None"
  "isTyping typing_without_session"
  "messageInput typing_without_session = ''And a sublease?''"
  "chat_requests typing_without_session =
     [GetSessions, GetMessages 1, PostChat (Some 1) ''What is a lease?'',
      DeleteSessionRequest (Some 1)]"
  "sessions typing_without_session = [session_b]"
  by (simp_all add: typing_without_session_def deleteSession_def deleteSession_begin_def
        deleteSession_resume_def sendMessage_send_def chat_page_defs Let_def
        chat_in_session_fields session_a_def session_b_def)

text \<open>
  While a reply is awaited, the current session can be deleted from the sidebar. A
  message typed then finds no session selected, and \<open>sendMessage\<close> returns at its first
  line: no session is created and nothing is sent.
\<close>

theorem sendMessage_while_typing_counterexample:
  "trim (messageInput typing_without_session) \<noteq> [] \<and>
   currentSessionId typing_without_session = None \<and>
   sendMessage ''9:02''
     (Inr \<lparr> success = True, message = Undefined, payload = session_c \<rparr>)
     (Inr \<lparr> success = True, message = Undefined, payload = reply_message \<rparr>)
     (Inr \<lparr> success = True, message = Undefined, payload = [session_c, session_b] \<rparr>)
     typing_without_session = typing_without_session \<and>
   chat_requests
     (sendMessage ''9:02''
        (Inr \<lparr> success = True, message = Undefined, payload = session_c \<rparr>)
        (Inr \<lparr> success = True, message = Undefined, payload = reply_message \<rparr>)
        (Inr \<lparr> success = True, message = Undefined, payload = [session_c, session_b] \<rparr>)
        typing_without_session) =
     [GetSessions, GetMessages 1, PostChat (Some 1) ''What is a lease?'',
      DeleteSessionRequest (Some 1)]"
  by (simp add: sendMessage_def Let_def typing_without_session_fields trim_samples)

text \<open>
  In general: while a reply is awaited, or when the input is blank, \<open>sendMessage\<close>
  returns at once and changes nothing.
\<close>

lemma sendMessage_returns_at_once:
  "isTyping s \<or> trim (messageInput s) = [] \<Longrightarrow>
     sendMessage now create_outcome chat_outcome sessions_outcome s = s"
  by (auto simp: sendMessage_def Let_def)

section \<open>Bodies with success false and rejected requests\<close>

lemma message_or_code:
  "(if truthy_str (message response)
    then (case message response of Val m \<Rightarrow> m | _ \<Rightarrow> [])
    else fallback) = message_or response fallback"
  by (cases "message response") (simp_all add: message_or_def)

lemma sendMessage_reply_rejected:
  "sendMessage_reply now (Inl e) sessions_outcome c =
     addMessageToUI (assistant_message now apology_connection) (hideTypingIndicator c)"
  by (simp add: sendMessage_reply_def)

lemma sendMessage_reply_unsuccessful:
  "\<not> success rc \<Longrightarrow>
     sendMessage_reply now (Inr rc) sessions_outcome c =
       addMessageToUI (assistant_message now apology_error) (hideTypingIndicator c)"
  by (simp add: sendMessage_reply_def Let_def)

text \<open>
  Claim C5, as the code has it. In the document manager a body with \<open>success: false\<close>
  is turned into a thrown \<open>Error\<close> carrying the body's message, or the operation's own
  text when there is none, and so ends exactly as a rejected request with that message
  does: this holds for \<open>uploadFile\<close> and for \<open>loadDocuments\<close>. In \<open>sendMessage\<close> the
  two cases end in states that differ only in the text of the assistant's apology that
  is appended to the conversation.
\<close>

theorem success_false_as_failure:
  "(\<not> success r \<longrightarrow>
      uploadFile_resume (Inr r) s =
        uploadFile_resume (Inl (Error (message_or r ''Upload failed''))) s) \<and>
   (\<not> success rd \<longrightarrow>
      loadDocuments_resume (Inr rd) s =
        loadDocuments_resume (Inl (Error (message_or rd ''Failed to load documents''))) s) \<and>
   (\<not> success rc \<longrightarrow>
      sendMessage_reply now (Inr rc) sessions_outcome c =
        (sendMessage_reply now (Inl e) sessions_outcome c)
          \<lparr> chatMessages := remove1 WelcomeMessage (chatMessages c) @
                              [MessageItem (assistant_message now apology_error)] \<rparr> \<and>
      chatMessages (sendMessage_reply now (Inl e) sessions_outcome c) =
        remove1 WelcomeMessage (chatMessages c) @
          [MessageItem (assistant_message now apology_connection)])"
proof -
  have upload: "\<not> success r \<longrightarrow>
      uploadFile_resume (Inr r) s =
        uploadFile_resume (Inl (Error (message_or r ''Upload failed''))) s"
    by (simp add: uploadFile_resume_def message_or_code Let_def)
  have load: "\<not> success rd \<longrightarrow>
      loadDocuments_resume (Inr rd) s =
        loadDocuments_resume (Inl (Error (message_or rd ''Failed to load documents''))) s"
    by (simp add: loadDocuments_resume_def message_or_code)
  have chat: "\<not> success rc \<longrightarrow>
      sendMessage_reply now (Inr rc) sessions_outcome c =
        (sendMessage_reply now (Inl e) sessions_outcome c)
          \<lparr> chatMessages := remove1 WelcomeMessage (chatMessages c) @
                              [MessageItem (assistant_message now apology_error)] \<rparr> \<and>
      chatMessages (sendMessage_reply now (Inl e) sessions_outcome c) =
        remove1 WelcomeMessage (chatMessages c) @
          [MessageItem (assistant_message now apology_connection)]"
    by (simp add: sendMessage_reply_rejected sendMessage_reply_unsuccessful addMessageToUI_def
          hideTypingIndicator_def Let_def)
  from upload load chat show ?thesis by blast
qed

theorem success_false_as_failure_witness:
  "\<not> success \<lparr> success = False, message = Val ''File is corrupt'', payload = () \<rparr> \<and>
   alerts (uploadFile_resume
             (Inr \<lparr> success = False, message = Val ''File is corrupt'', payload = () \<rparr>)
             (uploadFile_begin small_pdf DocumentManager_new))
     = [(''Upload failed: File is corrupt'', ''error'')] \<and>
   uploadFile_resume
     (Inr \<lparr> success = False, message = Val ''File is corrupt'', payload = () \<rparr>)
     (uploadFile_begin small_pdf DocumentManager_new)
     = uploadFile_resume (Inl (Error ''File is corrupt''))
         (uploadFile_begin small_pdf DocumentManager_new) \<and>
   loadDocuments_resume (Inr \<lparr> success = False, message = Undefined, payload = [] \<rparr>)
     DocumentManager_new
     = loadDocuments_resume (Inl (Error ''Failed to load documents'')) DocumentManager_new"
proof -
  have shown: "alerts (uploadFile_resume (Inl (Error ''File is corrupt''))
             (uploadFile_begin small_pdf DocumentManager_new))
     = [(''Upload failed: File is corrupt'', ''error'')]"
    by (simp add: uploadFile_resume_def uploadFile_begin_def uploadFile_catch_def
          uploadFile_finally_def dm_page_defs dm_new_defs Let_def)
  from shown
    success_false_as_failure
      [of "\<lparr> success = False, message = Val ''File is corrupt'', payload = () \<rparr>"
          "uploadFile_begin small_pdf DocumentManager_new"
          "\<lparr> success = False, message = Undefined, payload = [] \<rparr>"
          "\<lparr> success = False, message = Undefined, payload = reply_message \<rparr>"]
    success_false_as_failure
      [of "\<lparr> success = False, message = Val ''File is corrupt'', payload = () \<rparr>"
          DocumentManager_new
          "\<lparr> success = False, message = Undefined, payload = [] \<rparr>"
          "\<lparr> success = False, message = Undefined, payload = reply_message \<rparr>"]
  show ?thesis by (simp add: message_or_def)
qed

text \<open>
  In \<open>sendMessage\<close> the two cases are told apart: with session 1 open, a chat reply with
  \<open>success: false\<close> and a rejected chat request leave different conversations on the
  page.
\<close>

theorem sendMessage_success_false_counterexample:
  "chatMessages
     (sendMessage ''9:01'' (Inl (Error ''not asked''))
        (Inr \<lparr> success = False, message = Val ''Model unavailable'', payload = reply_message \<rparr>)
        (Inl (Error ''not asked'')) asking_in_session)
   \<noteq> chatMessages
     (sendMessage ''9:01'' (Inl (Error ''not asked''))
        (Inl (Error ''Model unavailable''))
        (Inl (Error ''not asked'')) asking_in_session) \<and>
   last (chatMessages
     (sendMessage ''9:01'' (Inl (Error ''not asked''))
        (Inr \<lparr> success = False, message = Val ''Model unavailable'', payload = reply_message \<rparr>)
        (Inl (Error ''not asked'')) asking_in_session))
     = MessageItem (assistant_message ''9:01'' apology_error) \<and>
   last (chatMessages
     (sendMessage ''9:01'' (Inl (Error ''not asked''))
        (Inl (Error ''Model unavailable''))
        (Inl (Error ''not asked'')) asking_in_session))
     = MessageItem (assistant_message ''9:01'' apology_connection)"
proof -
  have pre: "trim (messageInput asking_in_session) = ''What is a lease?''"
    "currentSessionId asking_in_session = Some 1" "\<not> isTyping asking_in_session"
    by (simp_all add: asking_in_session_def chat_in_session_fields trim_samples)
  have run: "sendMessage ''9:01'' (Inl (Error ''not asked'')) chat_outcome
               (Inl (Error ''not asked'')) asking_in_session =
             sendMessage_reply ''9:01'' chat_outcome (Inl (Error ''not asked''))
               (sendMessage_send ''9:01'' ''What is a lease?'' asking_in_session)"
    for chat_outcome
    by (simp add: sendMessage_def Let_def pre)
  show ?thesis
    using apologies_differ
    by (simp add: run sendMessage_reply_rejected sendMessage_reply_unsuccessful
          addMessageToUI_def assistant_message_def)
qed

end
